theory Spec2Isabelle
  imports Complex_Main "HOL-Library.Sublist"
begin

section \<open>Data model (src/database/models.py)\<close>

text \<open>
  The ORM classes \<open>Profile\<close> and \<open>Title\<close> become records with one field per column.
  Nullable columns are options. Python floats are modelled as real numbers: the
  arithmetic of the engine is read as exact arithmetic. The primary key \<open>Title.id\<close>
  is called \<open>title_id\<close> and the date column \<open>created_at\<close> is a string; the engine
  reads neither.
\<close>

record profile =
  profile_id :: int
  account_id :: int
  profile_name :: string
  kids_profile :: bool
  age_band :: string
  age_band_order :: int
  preferred_language :: string
  created_at :: string
  preferences :: "string option"
  preference_count :: int
  account_age_days :: int

record title =
  title_id :: int
  show_id :: string
  title_name :: string
  category :: string
  sub_category :: "string option"
  duration :: int
  age_rating :: string
  type :: string
  year :: int
  origin_region :: string
  language :: string
  episode_count :: int
  is_kids_content :: bool
  imdb_rating :: "real option"
  imdb_votes :: "real option"
  has_imdb_data :: bool
  data_completeness_score :: real

text \<open>
  The database is the two tables the engine queries, each a list of rows in the
  order in which an unordered query returns them.
\<close>

record store =
  profiles :: "profile list"
  titles :: "title list"

section \<open>Age gate (RecommendationEngine._get_age_ratings)\<close>

definition adult_or_default_ratings :: "profile \<Rightarrow> string list" where
  "adult_or_default_ratings p =
     (if age_band p \<in> set [''18-24'', ''25-34'', ''35-49'', ''50+'']
        then [''G'', ''PG'', ''13+'', ''16+'', ''18+'']
      else [''G'', ''PG'', ''13+''])"

text \<open>
  The source leaves the kids branch without returning when the age band is neither
  \<open><13\<close> nor \<open>13-17\<close>, and then runs the adult test and the default, which
  \<open>adult_or_default_ratings\<close> holds.
\<close>

definition get_age_ratings :: "profile \<Rightarrow> string list" where
  "get_age_ratings p =
     (if kids_profile p then
        (if age_band p = ''<13'' then [''G'', ''PG'']
         else if age_band p = ''13-17'' then [''G'', ''PG'', ''13+'']
         else adult_or_default_ratings p)
      else adult_or_default_ratings p)"

text \<open>
  The policy table of the specification, row by row, with the age bands written as
  the code spells them (\<open><13\<close> for under-13, \<open>50+\<close> for 50-plus).
\<close>

definition permittedRatings_table :: "bool \<Rightarrow> string \<Rightarrow> string set" where
  "permittedRatings_table isKids ageBand =
     (if ageBand = ''18-24'' \<or> ageBand = ''25-34'' \<or> ageBand = ''35-49'' \<or> ageBand = ''50+''
        then {''G'', ''PG'', ''13+'', ''16+'', ''18+''}
      else if isKids \<and> ageBand = ''<13'' then {''G'', ''PG''}
      else if isKids \<and> ageBand = ''13-17'' then {''G'', ''PG'', ''13+''}
      else {''G'', ''PG'', ''13+''})"

section \<open>Python strings and built-ins\<close>

text \<open>
  A Python string is a sequence of Unicode code points. A string of the model is a
  list of characters, and a character stands for the code point of its number, so the
  model holds the strings whose code points are all below 256. \<open>lower\<close> is
  \<open>str.lower\<close>, \<open>strip\<close> is \<open>str.strip\<close> with no argument, \<open>split_comma\<close> is
  \<open>str.split(',')\<close>, and Python's substring test \<open>a in b\<close> is \<^const>\<open>sublist\<close>.

  Below 256 the code points with a different lower-case form are the letters A to Z
  and the code points 0xC0 to 0xDE without the multiplication sign 0xD7; each lowers
  to the code point 0x20 above it.
\<close>

definition upper_chars :: string where
  "upper_chars = ''ABCDEFGHIJKLMNOPQRSTUVWXYZ'' @
     [CHR 0xC0, CHR 0xC1, CHR 0xC2, CHR 0xC3, CHR 0xC4, CHR 0xC5, CHR 0xC6, CHR 0xC7,
      CHR 0xC8, CHR 0xC9, CHR 0xCA, CHR 0xCB, CHR 0xCC, CHR 0xCD, CHR 0xCE, CHR 0xCF,
      CHR 0xD0, CHR 0xD1, CHR 0xD2, CHR 0xD3, CHR 0xD4, CHR 0xD5, CHR 0xD6,
      CHR 0xD8, CHR 0xD9, CHR 0xDA, CHR 0xDB, CHR 0xDC, CHR 0xDD, CHR 0xDE]"

definition lower_chars :: string where
  "lower_chars = ''abcdefghijklmnopqrstuvwxyz'' @
     [CHR 0xE0, CHR 0xE1, CHR 0xE2, CHR 0xE3, CHR 0xE4, CHR 0xE5, CHR 0xE6, CHR 0xE7,
      CHR 0xE8, CHR 0xE9, CHR 0xEA, CHR 0xEB, CHR 0xEC, CHR 0xED, CHR 0xEE, CHR 0xEF,
      CHR 0xF0, CHR 0xF1, CHR 0xF2, CHR 0xF3, CHR 0xF4, CHR 0xF5, CHR 0xF6,
      CHR 0xF8, CHR 0xF9, CHR 0xFA, CHR 0xFB, CHR 0xFC, CHR 0xFD, CHR 0xFE]"

definition lower_char :: "char \<Rightarrow> char" where
  "lower_char c =
     (case map_of (zip upper_chars lower_chars) c of
        Some l \<Rightarrow> l
      | None \<Rightarrow> c)"

definition lower :: "string \<Rightarrow> string" where
  "lower s = map lower_char s"

text \<open>The code points below 256 that \<open>str.isspace\<close> accepts.\<close>

definition is_space :: "char \<Rightarrow> bool" where
  "is_space c \<longleftrightarrow>
     c \<in> set [CHR '' '', CHR 0x09, CHR 0x0A, CHR 0x0B, CHR 0x0C, CHR 0x0D,
              CHR 0x1C, CHR 0x1D, CHR 0x1E, CHR 0x1F, CHR 0x85, CHR 0xA0]"

definition strip :: "string \<Rightarrow> string" where
  "strip s = rev (dropWhile is_space (rev (dropWhile is_space s)))"

fun split_comma :: "string \<Rightarrow> string list" where
  "split_comma [] = [[]]"
| "split_comma (c # cs) =
     (if c = CHR '','' then [] # split_comma cs
      else (case split_comma cs of
              [] \<Rightarrow> [[c]]
            | w # ws \<Rightarrow> (c # w) # ws))"

text \<open>
  \<open>round(x, 2)\<close>: the nearest multiple of 0.01, a tie going to the even neighbour.
\<close>

definition py_round :: "real \<Rightarrow> int" where
  "py_round y =
     (let f = \<lfloor>y\<rfloor>; d = y - of_int f
      in if d < 1 / 2 then f
         else if 1 / 2 < d then f + 1
         else if even f then f else f + 1)"

definition round2 :: "real \<Rightarrow> real" where
  "round2 x = of_int (py_round (x * 100)) / 100"

text \<open>
  \<open>xs.sort(key=key, reverse=True)\<close>: CPython reverses the list, sorts it stably in
  ascending order of the key, and reverses the result.
\<close>

definition py_sort_reverse :: "('a \<Rightarrow> real) \<Rightarrow> 'a list \<Rightarrow> 'a list" where
  "py_sort_reverse key xs = rev (sort_key key (rev xs))"

text \<open>
  The slice \<open>xs[:limit]\<close>: a negative \<open>limit\<close> counts from the end of the list.
\<close>

definition py_slice_to :: "int \<Rightarrow> 'a list \<Rightarrow> 'a list" where
  "py_slice_to limit xs =
     (if 0 \<le> limit then take (nat limit) xs
      else take (nat (int (length xs) + limit)) xs)"

text \<open>Truth value of an optional float: \<open>None\<close> and \<open>0.0\<close> are false.\<close>

definition truthy_float :: "real option \<Rightarrow> bool" where
  "truthy_float v = (case v of None \<Rightarrow> False | Some r \<Rightarrow> r \<noteq> 0)"

text \<open>
  The values stored in the result dictionaries, and a dictionary as the list of its
  items in insertion order; \<open>d[k]\<close> is \<open>map_of d k\<close>.
\<close>

datatype pyval = VTitle title | VFloat real | VInt int | VStr string | VNone

type_synonym pydict = "(string \<times> pyval) list"

definition opt_float :: "real option \<Rightarrow> pyval" where
  "opt_float v = (case v of None \<Rightarrow> VNone | Some r \<Rightarrow> VFloat r)"

section \<open>Store queries (src/database/queries.py)\<close>

definition get_profile_by_id :: "store \<Rightarrow> int \<Rightarrow> profile option" where
  "get_profile_by_id st pid = find (\<lambda>p. profile_id p = pid) (profiles st)"

definition get_title_by_show_id :: "store \<Rightarrow> string \<Rightarrow> title option" where
  "get_title_by_show_id st sid = find (\<lambda>t. show_id t = sid) (titles st)"

section \<open>Scoring model\<close>

definition weight_preference_match :: real where "weight_preference_match = 3.0"
definition weight_language_match :: real where "weight_language_match = 2.0"
definition weight_imdb_rating :: real where "weight_imdb_rating = 2.5"
definition weight_recency :: real where "weight_recency = 1.0"
definition weight_popularity :: real where "weight_popularity = 1.5"

definition score_preference_match :: "title \<Rightarrow> profile \<Rightarrow> real" where
  "score_preference_match t p =
     (case preferences p of
        None \<Rightarrow> 5.0
      | Some ps \<Rightarrow>
          if ps = [] then 5.0
          else
            let prefs = map strip (split_comma ps);
                title_cat_lower = lower (category t)
            in if category t \<in> set prefs then 10.0
               else if (case sub_category t of
                          None \<Rightarrow> False
                        | Some sc \<Rightarrow> sc \<noteq> [] \<and> sc \<in> set prefs) then 8.0
               else if list_ex (\<lambda>pref. sublist (lower pref) title_cat_lower \<or>
                                       sublist title_cat_lower (lower pref)) prefs then 6.0
               else 3.0)"

definition score_language_match :: "title \<Rightarrow> profile \<Rightarrow> real" where
  "score_language_match t p =
     (if language t = ''Unknown'' then 5.0
      else if lower (language t) = lower (preferred_language p) then 10.0
      else if lower (language t) = ''english'' \<or> language t = ''en'' then 7.0
      else 3.0)"

definition score_imdb_rating :: "title \<Rightarrow> real" where
  "score_imdb_rating t =
     (if \<not> has_imdb_data t then 5.0
      else (case imdb_rating t of None \<Rightarrow> 5.0 | Some r \<Rightarrow> r))"

definition current_year :: int where
  "current_year = 2026"

definition score_recency :: "title \<Rightarrow> real" where
  "score_recency t =
     (let age = current_year - year t
      in if age \<le> 1 then 10.0
         else if age \<le> 3 then 8.0
         else if age \<le> 5 then 6.0
         else if age \<le> 10 then 4.0
         else 2.0)"

definition score_popularity :: "title \<Rightarrow> real" where
  "score_popularity t =
     (if \<not> has_imdb_data t then 5.0
      else (case imdb_votes t of
              None \<Rightarrow> 5.0
            | Some v \<Rightarrow>
                if v < 10 then 0.0
                else min 10.0 (max 0.0 ((log 10 v - 1) * 3.33))))"

definition calculate_score :: "title \<Rightarrow> profile \<Rightarrow> real" where
  "calculate_score t p =
     round2 (0.0
       + score_preference_match t p * weight_preference_match
       + score_language_match t p * weight_language_match
       + score_imdb_rating t * weight_imdb_rating
       + score_recency t * weight_recency
       + score_popularity t * weight_popularity)"

text \<open>
  The language rule in the words of the specification: English is the value
  \<open>english\<close> or the code \<open>en\<close>, both compared without regard to case.
\<close>

definition language_rule_spec :: "title \<Rightarrow> profile \<Rightarrow> real" where
  "language_rule_spec t p =
     (if language t = ''Unknown'' then 5.0
      else if lower (language t) = lower (preferred_language p) then 10.0
      else if lower (language t) = ''english'' \<or> lower (language t) = ''en'' then 7.0
      else 3.0)"

section \<open>Similarity model\<close>

definition calculate_similarity :: "title \<Rightarrow> title \<Rightarrow> real" where
  "calculate_similarity title1 title2 =
     0.0 + 10.0
     + (if sub_category title1 = sub_category title2 then 10.0 else 0)
     + (if type title1 = type title2 then 5.0 else 0)
     + (let year_diff = \<bar>year title1 - year title2\<bar>
        in if year_diff \<le> 5 then of_int ((5 - year_diff) * 2) else 0)
     + (if truthy_float (imdb_rating title1) \<and> truthy_float (imdb_rating title2) then
          (let rating_diff = \<bar>the (imdb_rating title1) - the (imdb_rating title2)\<bar>
           in if rating_diff \<le> 1.0 then (1.0 - rating_diff) * 10 else 0)
        else 0)"

text \<open>
  The similarity sum in the words of the specification: the rating term is added
  when both titles have a rating.
\<close>

definition similarity_spec :: "title \<Rightarrow> title \<Rightarrow> real" where
  "similarity_spec title1 title2 =
     10
     + (if sub_category title1 = sub_category title2 then 10 else 0)
     + (if type title1 = type title2 then 5 else 0)
     + (if \<bar>year title1 - year title2\<bar> \<le> 5
          then of_int ((5 - \<bar>year title1 - year title2\<bar>) * 2) else 0)
     + (case (imdb_rating title1, imdb_rating title2) of
          (Some r1, Some r2) \<Rightarrow> if \<bar>r1 - r2\<bar> \<le> 1 then (1 - \<bar>r1 - r2\<bar>) * 10 else 0
        | _ \<Rightarrow> 0)"

section \<open>Ranking engine\<close>

definition get_candidate_titles :: "store \<Rightarrow> profile \<Rightarrow> title list" where
  "get_candidate_titles st p =
     (let age_ratings = get_age_ratings p;
          query = titles st;
          query = (if kids_profile p then filter (\<lambda>t. is_kids_content t = True) query
                   else query)
      in filter (\<lambda>t. age_rating t \<in> set age_ratings) query)"

text \<open>
  \<open>exclude_show_ids\<close> is an optional list; \<open>None\<close> and the empty list are both false,
  and then nothing is removed.
\<close>

definition exclude_watched :: "string list option \<Rightarrow> title list \<Rightarrow> title list" where
  "exclude_watched exclude_show_ids candidates =
     (case exclude_show_ids of
        None \<Rightarrow> candidates
      | Some ids \<Rightarrow>
          if ids \<noteq> [] then filter (\<lambda>t. show_id t \<notin> set ids) candidates
          else candidates)"

definition recommendation_entry :: "title \<Rightarrow> real \<Rightarrow> pydict" where
  "recommendation_entry t score =
     [(''title'', VTitle t),
      (''score'', VFloat score),
      (''show_id'', VStr (show_id t)),
      (''title_name'', VStr (title_name t)),
      (''category'', VStr (category t)),
      (''year'', VInt (year t)),
      (''imdb_rating'', opt_float (imdb_rating t)),
      (''age_rating'', VStr (age_rating t)),
      (''type'', VStr (type t)),
      (''language'', VStr (language t)),
      (''duration'', VInt (duration t))]"

definition scored_titles :: "profile \<Rightarrow> title list \<Rightarrow> pydict list" where
  "scored_titles p candidates =
     map (\<lambda>t. recommendation_entry t (calculate_score t p)) candidates"

text \<open>
  The sort key \<open>lambda x: x['score']\<close>. Every dictionary the engine sorts has a float
  under \<open>score\<close>; the other cases of the lookup do not arise.
\<close>

definition score_key :: "pydict \<Rightarrow> real" where
  "score_key x = (case map_of x ''score'' of Some (VFloat s) \<Rightarrow> s | _ \<Rightarrow> 0)"

definition get_recommendations ::
    "store \<Rightarrow> int \<Rightarrow> int \<Rightarrow> string list option \<Rightarrow> pydict list" where
  "get_recommendations st pid limit exclude_show_ids =
     (case get_profile_by_id st pid of
        None \<Rightarrow> []
      | Some p \<Rightarrow>
          let candidates = get_candidate_titles st p;
              candidates = exclude_watched exclude_show_ids candidates;
              scored = scored_titles p candidates
          in py_slice_to limit (py_sort_reverse score_key scored))"

definition get_recommendations_by_category ::
    "store \<Rightarrow> int \<Rightarrow> string \<Rightarrow> int \<Rightarrow> pydict list" where
  "get_recommendations_by_category st pid cat limit =
     (let all_recs = get_recommendations st pid 100 None;
          filtered = filter (\<lambda>r. map_of r ''category'' = Some (VStr cat)) all_recs
      in py_slice_to limit filtered)"

definition similar_entry :: "title \<Rightarrow> real \<Rightarrow> pydict" where
  "similar_entry candidate similarity_score =
     [(''title'', VTitle candidate),
      (''score'', VFloat similarity_score),
      (''show_id'', VStr (show_id candidate)),
      (''title_name'', VStr (title_name candidate)),
      (''category'', VStr (category candidate)),
      (''year'', VInt (year candidate)),
      (''imdb_rating'', opt_float (imdb_rating candidate))]"

definition similar_candidates :: "store \<Rightarrow> title \<Rightarrow> string \<Rightarrow> title list" where
  "similar_candidates st t sid =
     filter (\<lambda>c. category c = category t \<and> show_id c \<noteq> sid) (titles st)"

definition scored_similar :: "title \<Rightarrow> title list \<Rightarrow> pydict list" where
  "scored_similar t candidates =
     map (\<lambda>c. similar_entry c (calculate_similarity t c)) candidates"

definition get_similar_titles :: "store \<Rightarrow> string \<Rightarrow> int \<Rightarrow> pydict list" where
  "get_similar_titles st sid limit =
     (case get_title_by_show_id st sid of
        None \<Rightarrow> []
      | Some t \<Rightarrow>
          let candidates = similar_candidates st t sid;
              scored = scored_similar t candidates
          in py_slice_to limit (py_sort_reverse score_key scored))"

section \<open>Vocabulary of the properties\<close>

text \<open>
  The show ids a call excludes: none when \<open>exclude_show_ids\<close> is \<open>None\<close>.
\<close>

definition excluded_ids :: "string list option \<Rightarrow> string set" where
  "excluded_ids ex = (case ex of None \<Rightarrow> {} | Some ids \<Rightarrow> set ids)"

text \<open>A dictionary has every key of a list.\<close>

definition has_fields :: "string list \<Rightarrow> pydict \<Rightarrow> bool" where
  "has_fields ks d = list_all (\<lambda>k. map_of d k \<noteq> None) ks"

text \<open>
  The fields the specification lists without a question mark, under the names the
  code gives them; \<open>sub_category\<close> and \<open>imdb_rating\<close> are the optional ones.
\<close>

definition spec_required_fields :: "string list" where
  "spec_required_fields =
     [''show_id'', ''title_name'', ''category'', ''year'', ''type'', ''duration'',
      ''age_rating'', ''language'', ''score'']"

definition recommendation_fields :: "string list" where
  "recommendation_fields =
     [''title'', ''score'', ''show_id'', ''title_name'', ''category'', ''year'',
      ''imdb_rating'', ''age_rating'', ''type'', ''language'', ''duration'']"

definition similar_fields :: "string list" where
  "similar_fields =
     [''title'', ''score'', ''show_id'', ''title_name'', ''category'', ''year'',
      ''imdb_rating'']"

section \<open>Sample data\<close>

definition kid_profile :: profile where
  "kid_profile = \<lparr>profile_id = 1, account_id = 1, profile_name = ''Kid'',
     kids_profile = True, age_band = ''<13'', age_band_order = 1,
     preferred_language = ''en'', created_at = ''2024-01-01'',
     preferences = Some ''Kids,Animation'', preference_count = 2,
     account_age_days = 100\<rparr>"

definition adult_profile :: profile where
  "adult_profile = \<lparr>profile_id = 2, account_id = 1, profile_name = ''Adult'',
     kids_profile = False, age_band = ''25-34'', age_band_order = 4,
     preferred_language = ''French'', created_at = ''2024-01-01'',
     preferences = None, preference_count = 0,
     account_age_days = 100\<rparr>"

definition movie_a :: title where
  "movie_a = \<lparr>title_id = 1, show_id = ''s1'', title_name = ''Alpha'',
     category = ''Drama'', sub_category = None, duration = 100, age_rating = ''PG'',
     type = ''Movie'', year = 2020, origin_region = ''US'', language = ''EN'',
     episode_count = 1, is_kids_content = False, imdb_rating = Some 0,
     imdb_votes = None, has_imdb_data = True, data_completeness_score = 1\<rparr>"

definition movie_b :: title where
  "movie_b = movie_a\<lparr>title_id := 2, show_id := ''s2'', title_name := ''Beta'',
     imdb_rating := Some 0.5\<rparr>"

definition movie_c :: title where
  "movie_c = movie_a\<lparr>title_id := 3, show_id := ''s3'', title_name := ''Gamma'',
     imdb_rating := Some 0.5\<rparr>"

definition demo_store :: store where
  "demo_store = \<lparr>profiles = [kid_profile, adult_profile],
     titles = [movie_a, movie_b, movie_c]\<rparr>"

section \<open>Properties of the age gate\<close>

text \<open>
  C1 (as stated): every profile's permitted ratings contain G, PG and 13+. This fails
  for a kids profile in the age band \<open><13\<close>, whose ratings are G and PG only.
\<close>

theorem C1_counterexample:
  "\<not> {''G'', ''PG'', ''13+''} \<subseteq> set (get_age_ratings kid_profile)"
  by (simp add: get_age_ratings_def kid_profile_def)

text \<open>
  C1 (amended): for every profile the permitted ratings are non-empty and contain G and
  PG; they contain 13+ as well unless the profile is a kids profile in the age band
  \<open><13\<close>, and the permitted ratings of such a profile are exactly G and PG.
\<close>

theorem C1_age_ratings_floor:
  "get_age_ratings p \<noteq> [] \<and> {''G'', ''PG''} \<subseteq> set (get_age_ratings p) \<and>
   (\<not> (kids_profile p \<and> age_band p = ''<13'') \<longrightarrow> ''13+'' \<in> set (get_age_ratings p)) \<and>
   (kids_profile p \<and> age_band p = ''<13'' \<longrightarrow> set (get_age_ratings p) = {''G'', ''PG''})"
  by (simp add: get_age_ratings_def adult_or_default_ratings_def)

text \<open>
  The adult sample profile is outside the kids branch and the kids sample profile is
  inside it.
\<close>

theorem C1_age_ratings_floor_witness:
  "get_age_ratings adult_profile \<noteq> [] \<and> {''G'', ''PG''} \<subseteq> set (get_age_ratings adult_profile) \<and>
   \<not> (kids_profile adult_profile \<and> age_band adult_profile = ''<13'') \<and>
   ''13+'' \<in> set (get_age_ratings adult_profile) \<and>
   kids_profile kid_profile \<and> age_band kid_profile = ''<13'' \<and>
   get_age_ratings kid_profile \<noteq> [] \<and>
   set (get_age_ratings kid_profile) = {''G'', ''PG''}"
proof -
  have h: "\<not> (kids_profile adult_profile \<and> age_band adult_profile = ''<13'')"
    by (simp add: adult_profile_def)
  have k: "kids_profile kid_profile \<and> age_band kid_profile = ''<13''"
    by (simp add: kid_profile_def)
  from C1_age_ratings_floor [of adult_profile] C1_age_ratings_floor [of kid_profile] h k
  show ?thesis by blast
qed

text \<open>
  C2: the permitted ratings are exactly those of the policy table, for every kids
  flag and every age band, recognised or not.
\<close>

theorem C2_age_ratings_table:
  "set (get_age_ratings p) = permittedRatings_table (kids_profile p) (age_band p)"
  by (auto simp add: get_age_ratings_def adult_or_default_ratings_def permittedRatings_table_def)

section \<open>Not-found lookups\<close>

text \<open>
  C4: when no profile has the requested id, personalised recommendations are the
  empty list, and when no title has the requested show id, similar titles are the
  empty list. Both functions return before any other work, so the result is an
  ordinary value and nothing is raised.
\<close>

theorem C4_not_found_empty:
  "(pid \<notin> profile_id ` set (profiles st) \<longrightarrow> get_recommendations st pid limit ex = []) \<and>
   (sid \<notin> show_id ` set (titles st) \<longrightarrow> get_similar_titles st sid limit = [])"
proof -
  have a: "get_profile_by_id st pid = None" if "pid \<notin> profile_id ` set (profiles st)"
    using that by (auto simp add: get_profile_by_id_def find_None_iff)
  have b: "get_title_by_show_id st sid = None" if "sid \<notin> show_id ` set (titles st)"
    using that by (auto simp add: get_title_by_show_id_def find_None_iff)
  show ?thesis
    using a b by (simp add: get_recommendations_def get_similar_titles_def)
qed

text \<open>The sample store has neither a profile 99 nor a title \<open>zz\<close>.\<close>

theorem C4_not_found_empty_witness:
  "99 \<notin> profile_id ` set (profiles demo_store) \<and>
   get_recommendations demo_store 99 10 None = [] \<and>
   ''zz'' \<notin> show_id ` set (titles demo_store) \<and>
   get_similar_titles demo_store ''zz'' 10 = []"
proof -
  have p: "99 \<notin> profile_id ` set (profiles demo_store)"
    by (simp add: demo_store_def kid_profile_def adult_profile_def)
  have t: "''zz'' \<notin> show_id ` set (titles demo_store)"
    by (simp add: demo_store_def movie_a_def movie_b_def movie_c_def)
  from C4_not_found_empty [of 99 demo_store 10 None "''zz''"] p t
  show ?thesis by blast
qed

section \<open>Language sub-score\<close>

lemma lower_samples:
  "lower ''EN'' = ''en''" "lower ''en'' = ''en''"
  "lower ''French'' = ''french''" "lower ''English'' = ''english''"
  by (simp_all add: lower_def lower_char_def upper_chars_def lower_chars_def)

text \<open>Capital letters above the ASCII range are lowered as well.\<close>

lemma lower_latin1_sample:
  "lower (''FRAN'' @ [CHR 0xC7] @ ''AIS'') = ''fran'' @ [CHR 0xE7] @ ''ais''"
  by (simp add: lower_def lower_char_def upper_chars_def lower_chars_def)

text \<open>
  C5: the language sub-score is 5.0 for the language \<open>Unknown\<close>, otherwise 10.0 for a
  match with the profile's preferred language without regard to case, otherwise 7.0 for
  an English title, which is the value \<open>english\<close> or the code \<open>en\<close> without regard to
  case, otherwise 3.0. The code lowers the title's language for the comparisons with
  the preferred language and with \<open>english\<close>, and compares it with \<open>en\<close> as it is.
  For a profile that prefers French the title \<open>movie_a\<close>, whose language is \<open>EN\<close>,
  scores 3.0 where the rule gives 7.0, and the same title with the language \<open>en\<close>
  scores 7.0.
\<close>

theorem C5_upper_case_en_not_english:
  "language movie_a = ''EN'' \<and> preferred_language adult_profile = ''French'' \<and>
   score_language_match movie_a adult_profile = 3 \<and>
   language_rule_spec movie_a adult_profile = 7 \<and>
   score_language_match (movie_a\<lparr>language := ''en''\<rparr>) adult_profile = 7"
  by (simp add: score_language_match_def language_rule_spec_def movie_a_def
      adult_profile_def lower_samples)

text \<open>
  The code and the rule of the specification differ only for the three spellings of
  the code \<open>en\<close> that have an upper-case letter.
\<close>

lemma lower_char_e: "lower_char c = CHR ''e'' \<longleftrightarrow> c = CHR ''e'' \<or> c = CHR ''E''"
  by (auto simp add: lower_char_def upper_chars_def lower_chars_def split: if_splits)

lemma lower_char_n: "lower_char c = CHR ''n'' \<longleftrightarrow> c = CHR ''n'' \<or> c = CHR ''N''"
  by (auto simp add: lower_char_def upper_chars_def lower_chars_def split: if_splits)

lemma lower_en: "lower s = ''en'' \<longleftrightarrow> s \<in> {''en'', ''EN'', ''En'', ''eN''}"
proof -
  have "lower s = ''en'' \<longleftrightarrow> (\<exists>a b. s = [a, b] \<and> lower_char a = CHR ''e'' \<and> lower_char b = CHR ''n'')"
    by (auto simp add: lower_def map_eq_Cons_conv)
  then show ?thesis
    by (auto simp add: lower_char_e lower_char_n)
qed

lemma language_rule_spec_agrees:
  "language t \<notin> {''EN'', ''En'', ''eN''} \<Longrightarrow> score_language_match t p = language_rule_spec t p"
  by (simp add: score_language_match_def language_rule_spec_def lower_en)

section \<open>Similarity\<close>

text \<open>
  The sample titles \<open>movie_b\<close> and \<open>movie_c\<close> are equally similar to \<open>movie_a\<close>.
\<close>

lemma demo_similarity_b: "calculate_similarity movie_a movie_b = 35"
  by (simp add: calculate_similarity_def movie_a_def movie_b_def truthy_float_def)

lemma demo_similarity_c: "calculate_similarity movie_a movie_c = 35"
  by (simp add: calculate_similarity_def movie_a_def movie_c_def truthy_float_def)

text \<open>
  C6: the similarity of two titles is the sum 10 + 10 (equal sub-categories) + 5 (equal
  types) + (5 - yearDiff) * 2 (years at most 5 apart) + (1.0 - ratingDiff) * 10 (both
  titles have a rating, at most 1.0 apart). The code tests the ratings for truth, not
  for presence, so a rating of 0.0 counts as absent: \<open>movie_a\<close> is rated 0.0 and
  \<open>movie_b\<close> 0.5, the sum of the claim is 40 and the code returns 35.
\<close>

theorem C6_zero_rating_dropped:
  "imdb_rating movie_a = Some 0 \<and> imdb_rating movie_b = Some 0.5 \<and>
   calculate_similarity movie_a movie_b = 35 \<and> similarity_spec movie_a movie_b = 40"
  by (simp add: calculate_similarity_def similarity_spec_def movie_a_def movie_b_def
      truthy_float_def)

text \<open>Away from the rating 0.0 the code computes the sum of the specification.\<close>

lemma calculate_similarity_nonzero:
  "imdb_rating t1 \<noteq> Some 0 \<Longrightarrow> imdb_rating t2 \<noteq> Some 0 \<Longrightarrow>
   calculate_similarity t1 t2 = similarity_spec t1 t2"
  by (auto simp add: calculate_similarity_def similarity_spec_def truthy_float_def Let_def
      split: option.splits)

text \<open>
  C10: the similarity of any two titles lies between 10 and 45: the category term 10
  is always added, the other terms are never negative, and they are at most 10
  (sub-category), 5 (type), 10 (year) and 10 (rating).
\<close>

theorem C10_similarity_bounds:
  "10 \<le> calculate_similarity t1 t2 \<and> calculate_similarity t1 t2 \<le> 45"
proof -
  define yd where "yd = \<bar>year t1 - year t2\<bar>"
  define yterm :: real where "yterm = (if yd \<le> 5 then of_int ((5 - yd) * 2) else 0)"
  define rterm :: real where "rterm =
     (if truthy_float (imdb_rating t1) \<and> truthy_float (imdb_rating t2) then
          (let rating_diff = \<bar>the (imdb_rating t1) - the (imdb_rating t2)\<bar>
           in if rating_diff \<le> 1.0 then (1.0 - rating_diff) * 10 else 0)
        else 0)"
  have yd0: "0 \<le> yd" by (simp add: yd_def)
  have y: "0 \<le> yterm \<and> yterm \<le> 10"
  proof (cases "yd \<le> 5")
    case True
    then have "0 \<le> (5 - yd) * 2 \<and> (5 - yd) * 2 \<le> 10" using yd0 by simp
    then have "(0::real) \<le> of_int ((5 - yd) * 2) \<and> (of_int ((5 - yd) * 2) :: real) \<le> 10"
      by (metis of_int_0_le_iff of_int_le_iff of_int_numeral)
    with True show ?thesis by (simp add: yterm_def)
  next
    case False
    then show ?thesis by (simp add: yterm_def)
  qed
  have r: "0 \<le> rterm \<and> rterm \<le> 10"
    by (simp add: rterm_def Let_def)
  have "calculate_similarity t1 t2 =
      10 + (if sub_category t1 = sub_category t2 then 10 else 0)
         + (if type t1 = type t2 then 5 else 0) + yterm + rterm"
    by (simp add: calculate_similarity_def yterm_def rterm_def yd_def Let_def)
  with y r show ?thesis by simp
qed

section \<open>Monotonicity of the score in the rating\<close>

lemma py_round_lower: "\<lfloor>y\<rfloor> \<le> py_round y"
  by (simp add: py_round_def Let_def)

lemma py_round_upper: "py_round y \<le> \<lfloor>y\<rfloor> + 1"
  by (simp add: py_round_def Let_def)

lemma py_round_mono:
  assumes "x \<le> y"
  shows "py_round x \<le> py_round y"
proof (cases "\<lfloor>x\<rfloor> = \<lfloor>y\<rfloor>")
  case True
  with assms have "x - of_int \<lfloor>y\<rfloor> \<le> y - of_int \<lfloor>y\<rfloor>" by simp
  with True show ?thesis
    by (auto simp add: py_round_def Let_def)
next
  case False
  from assms have "\<lfloor>x\<rfloor> \<le> \<lfloor>y\<rfloor>" by (rule floor_mono)
  with False have "\<lfloor>x\<rfloor> + 1 \<le> \<lfloor>y\<rfloor>" by simp
  with py_round_upper [of x] py_round_lower [of y] show ?thesis by linarith
qed

lemma round2_mono: "x \<le> y \<Longrightarrow> round2 x \<le> round2 y"
proof -
  assume "x \<le> y"
  then have "x * 100 \<le> y * 100" by simp
  then have "py_round (x * 100) \<le> py_round (y * 100)" by (rule py_round_mono)
  then have "(of_int (py_round (x * 100)) :: real) \<le> of_int (py_round (y * 100))" by simp
  then show ?thesis by (simp add: round2_def divide_right_mono)
qed

lemma score_preference_match_rating:
  "score_preference_match (t\<lparr>imdb_rating := v\<rparr>) p = score_preference_match t p"
  unfolding score_preference_match_def by (simp cong: option.case_cong if_cong)

lemma score_language_match_rating:
  "score_language_match (t\<lparr>imdb_rating := v\<rparr>) p = score_language_match t p"
  by (simp add: score_language_match_def)

lemma score_recency_rating:
  "score_recency (t\<lparr>imdb_rating := v\<rparr>) = score_recency t"
  by (simp add: score_recency_def)

lemma score_popularity_rating:
  "score_popularity (t\<lparr>imdb_rating := v\<rparr>) = score_popularity t"
  by (simp add: score_popularity_def)

lemma score_imdb_rating_mono:
  "r1 \<le> r2 \<Longrightarrow> score_imdb_rating (t\<lparr>imdb_rating := Some r1\<rparr>)
      \<le> score_imdb_rating (t\<lparr>imdb_rating := Some r2\<rparr>)"
  by (simp add: score_imdb_rating_def)

text \<open>
  C7: for every profile, of two titles that differ only in the rating, both ratings
  present, the one with the higher rating never has the lower rounded score.
\<close>

theorem C7_score_monotone_in_rating:
  assumes "r1 \<le> r2"
  shows "calculate_score (t\<lparr>imdb_rating := Some r1\<rparr>) p
           \<le> calculate_score (t\<lparr>imdb_rating := Some r2\<rparr>) p"
proof -
  have "score_imdb_rating (t\<lparr>imdb_rating := Some r1\<rparr>) * weight_imdb_rating
      \<le> score_imdb_rating (t\<lparr>imdb_rating := Some r2\<rparr>) * weight_imdb_rating"
    using score_imdb_rating_mono [OF assms, of t] by (simp add: weight_imdb_rating_def)
  then have "0.0
       + score_preference_match t p * weight_preference_match
       + score_language_match t p * weight_language_match
       + score_imdb_rating (t\<lparr>imdb_rating := Some r1\<rparr>) * weight_imdb_rating
       + score_recency t * weight_recency
       + score_popularity t * weight_popularity
    \<le> 0.0
       + score_preference_match t p * weight_preference_match
       + score_language_match t p * weight_language_match
       + score_imdb_rating (t\<lparr>imdb_rating := Some r2\<rparr>) * weight_imdb_rating
       + score_recency t * weight_recency
       + score_popularity t * weight_popularity"
    by linarith
  then have "round2 (0.0
       + score_preference_match t p * weight_preference_match
       + score_language_match t p * weight_language_match
       + score_imdb_rating (t\<lparr>imdb_rating := Some r1\<rparr>) * weight_imdb_rating
       + score_recency t * weight_recency
       + score_popularity t * weight_popularity)
    \<le> round2 (0.0
       + score_preference_match t p * weight_preference_match
       + score_language_match t p * weight_language_match
       + score_imdb_rating (t\<lparr>imdb_rating := Some r2\<rparr>) * weight_imdb_rating
       + score_recency t * weight_recency
       + score_popularity t * weight_popularity)"
    by (rule round2_mono)
  then show ?thesis
    by (simp only: calculate_score_def score_preference_match_rating
        score_language_match_rating score_recency_rating score_popularity_rating)
qed


theorem C7_score_monotone_in_rating_witness:
  "(6::real) \<le> 8 \<and>
   calculate_score (movie_a\<lparr>imdb_rating := Some 6\<rparr>) adult_profile
     \<le> calculate_score (movie_a\<lparr>imdb_rating := Some 8\<rparr>) adult_profile"
proof -
  have h: "(6::real) \<le> 8" by simp
  from C7_score_monotone_in_rating [OF h, of movie_a adult_profile] h
  show ?thesis by blast
qed

section \<open>Sorting and truncation\<close>

lemma py_sort_reverse_sorted:
  "sorted_wrt (\<lambda>a b. key b \<le> key a) (py_sort_reverse key xs)"
proof -
  have "sorted (map key (sort_key key (rev xs)))" by simp
  then have "sorted_wrt (\<lambda>a b. key a \<le> key b) (sort_key key (rev xs))"
    by (simp add: sorted_map)
  then show ?thesis
    by (simp add: py_sort_reverse_def sorted_wrt_rev)
qed

lemma py_sort_reverse_stable:
  "filter (\<lambda>r. key r = k) (py_sort_reverse key xs) = filter (\<lambda>r. key r = k) xs"
proof -
  have "filter (\<lambda>r. key r = k) (py_sort_reverse key xs)
      = rev (filter (\<lambda>r. key r = k) (sort_key key (rev xs)))"
    by (simp add: py_sort_reverse_def rev_filter)
  also have "\<dots> = rev (filter (\<lambda>r. key r = k) (rev xs))"
    by (simp only: sort_key_stable)
  also have "\<dots> = filter (\<lambda>r. key r = k) xs"
    by (simp add: rev_filter)
  finally show ?thesis .
qed

lemma set_py_sort_reverse: "set (py_sort_reverse key xs) = set xs"
  by (simp add: py_sort_reverse_def)

lemma py_slice_to_prefix: "prefix (py_slice_to limit xs) xs"
  by (simp add: py_slice_to_def take_is_prefix)

lemma set_py_slice_to: "set (py_slice_to limit xs) \<subseteq> set xs"
  by (simp add: py_slice_to_def set_take_subset)

lemma in_set_py_slice_to: "r \<in> set (py_slice_to limit xs) \<Longrightarrow> r \<in> set xs"
  by (auto simp add: py_slice_to_def dest: in_set_takeD split: if_splits)

lemma py_slice_to_nonneg: "0 \<le> limit \<Longrightarrow> py_slice_to limit xs = take (nat limit) xs"
  by (simp add: py_slice_to_def)

lemma ranked_output:
  "\<exists>S. sorted_wrt (\<lambda>a b. key b \<le> key a) S \<and>
       (\<forall>k. filter (\<lambda>r. key r = k) S = filter (\<lambda>r. key r = k) scored) \<and>
       prefix (py_slice_to limit (py_sort_reverse key scored)) S \<and>
       (0 \<le> limit \<longrightarrow> py_slice_to limit (py_sort_reverse key scored) = take (nat limit) S)"
  by (rule exI [of _ "py_sort_reverse key scored"])
     (simp add: py_sort_reverse_sorted py_sort_reverse_stable py_slice_to_prefix py_slice_to_nonneg)

lemma score_key_recommendation_entry [simp]:
  "score_key (recommendation_entry t s) = s"
  by (simp add: score_key_def recommendation_entry_def)

lemma score_key_similar_entry [simp]:
  "score_key (similar_entry t s) = s"
  by (simp add: score_key_def similar_entry_def)

text \<open>The two operations on the sample store.\<close>

lemma demo_profile: "get_profile_by_id demo_store 2 = Some adult_profile"
  by (simp add: get_profile_by_id_def demo_store_def kid_profile_def adult_profile_def)

lemma demo_title: "get_title_by_show_id demo_store ''s1'' = Some movie_a"
  by (simp add: get_title_by_show_id_def demo_store_def movie_a_def)

lemma demo_candidates:
  "get_candidate_titles demo_store adult_profile = [movie_a, movie_b, movie_c]"
  by (simp add: get_candidate_titles_def get_age_ratings_def adult_or_default_ratings_def
      demo_store_def adult_profile_def movie_a_def movie_b_def movie_c_def)

lemma demo_excluded:
  "exclude_watched (Some [''s2'', ''s3'']) [movie_a, movie_b, movie_c] = [movie_a]"
  by (simp add: exclude_watched_def movie_a_def movie_b_def movie_c_def)

lemma demo_recommendations:
  "get_recommendations demo_store 2 10 (Some [''s2'', ''s3''])
     = [recommendation_entry movie_a (calculate_score movie_a adult_profile)]"
  by (simp add: get_recommendations_def demo_profile demo_candidates demo_excluded
      scored_titles_def py_sort_reverse_def py_slice_to_def)

lemma demo_similar_candidates:
  "similar_candidates demo_store movie_a ''s1'' = [movie_b, movie_c]"
  by (simp add: similar_candidates_def demo_store_def movie_a_def movie_b_def movie_c_def)

lemma demo_similar:
  "get_similar_titles demo_store ''s1'' 2 = [similar_entry movie_b 35, similar_entry movie_c 35]"
  by (simp add: get_similar_titles_def demo_title demo_similar_candidates scored_similar_def
      demo_similarity_b demo_similarity_c py_sort_reverse_def py_slice_to_def)

text \<open>
  C8: in personalised recommendations and in similar titles the output is a prefix of
  a list \<open>S\<close> that is sorted by descending score and holds, for every score, the
  entries of that score in the order of the retrieval sequence; for a limit that is
  not negative the output is the first \<open>limit\<close> entries of \<open>S\<close>.
\<close>

theorem C8_sorted_stable_truncated:
  "(get_profile_by_id st pid = Some p \<longrightarrow>
      (\<exists>S. sorted_wrt (\<lambda>a b. score_key b \<le> score_key a) S \<and>
           (\<forall>k. filter (\<lambda>r. score_key r = k) S =
                filter (\<lambda>r. score_key r = k)
                  (scored_titles p (exclude_watched ex (get_candidate_titles st p)))) \<and>
           prefix (get_recommendations st pid limit ex) S \<and>
           (0 \<le> limit \<longrightarrow> get_recommendations st pid limit ex = take (nat limit) S))) \<and>
   (get_title_by_show_id st sid = Some t \<longrightarrow>
      (\<exists>S. sorted_wrt (\<lambda>a b. score_key b \<le> score_key a) S \<and>
           (\<forall>k. filter (\<lambda>r. score_key r = k) S =
                filter (\<lambda>r. score_key r = k)
                  (scored_similar t (similar_candidates st t sid))) \<and>
           prefix (get_similar_titles st sid limit) S \<and>
           (0 \<le> limit \<longrightarrow> get_similar_titles st sid limit = take (nat limit) S)))"
proof (intro conjI impI)
  assume "get_profile_by_id st pid = Some p"
  then have "get_recommendations st pid limit ex =
      py_slice_to limit (py_sort_reverse score_key
        (scored_titles p (exclude_watched ex (get_candidate_titles st p))))"
    by (simp add: get_recommendations_def)
  then show "\<exists>S. sorted_wrt (\<lambda>a b. score_key b \<le> score_key a) S \<and>
           (\<forall>k. filter (\<lambda>r. score_key r = k) S =
                filter (\<lambda>r. score_key r = k)
                  (scored_titles p (exclude_watched ex (get_candidate_titles st p)))) \<and>
           prefix (get_recommendations st pid limit ex) S \<and>
           (0 \<le> limit \<longrightarrow> get_recommendations st pid limit ex = take (nat limit) S)"
    using ranked_output [of score_key "scored_titles p (exclude_watched ex (get_candidate_titles st p))" limit]
    by simp
next
  assume "get_title_by_show_id st sid = Some t"
  then have "get_similar_titles st sid limit =
      py_slice_to limit (py_sort_reverse score_key
        (scored_similar t (similar_candidates st t sid)))"
    by (simp add: get_similar_titles_def)
  then show "\<exists>S. sorted_wrt (\<lambda>a b. score_key b \<le> score_key a) S \<and>
           (\<forall>k. filter (\<lambda>r. score_key r = k) S =
                filter (\<lambda>r. score_key r = k)
                  (scored_similar t (similar_candidates st t sid))) \<and>
           prefix (get_similar_titles st sid limit) S \<and>
           (0 \<le> limit \<longrightarrow> get_similar_titles st sid limit = take (nat limit) S)"
    using ranked_output [of score_key "scored_similar t (similar_candidates st t sid)" limit]
    by simp
qed

text \<open>
  On the sample store \<open>movie_b\<close> and \<open>movie_c\<close> tie and keep their order.
\<close>

theorem C8_sorted_stable_truncated_witness:
  "get_profile_by_id demo_store 2 = Some adult_profile \<and>
   get_title_by_show_id demo_store ''s1'' = Some movie_a \<and>
   get_similar_titles demo_store ''s1'' 2 = [similar_entry movie_b 35, similar_entry movie_c 35] \<and>
   (\<exists>S. sorted_wrt (\<lambda>a b. score_key b \<le> score_key a) S \<and>
        (\<forall>k. filter (\<lambda>r. score_key r = k) S =
             filter (\<lambda>r. score_key r = k)
               (scored_titles adult_profile
                  (exclude_watched None (get_candidate_titles demo_store adult_profile)))) \<and>
        get_recommendations demo_store 2 2 None = take 2 S) \<and>
   (\<exists>S. sorted_wrt (\<lambda>a b. score_key b \<le> score_key a) S \<and>
        (\<forall>k. filter (\<lambda>r. score_key r = k) S =
             filter (\<lambda>r. score_key r = k)
               (scored_similar movie_a (similar_candidates demo_store movie_a ''s1''))) \<and>
        get_similar_titles demo_store ''s1'' 2 = take 2 S)"
proof -
  have l: "(0::int) \<le> 2" by simp
  from C8_sorted_stable_truncated
    [of demo_store 2 adult_profile None 2 "''s1''" movie_a] demo_profile demo_title l
  have "(\<exists>S. sorted_wrt (\<lambda>a b. score_key b \<le> score_key a) S \<and>
        (\<forall>k. filter (\<lambda>r. score_key r = k) S =
             filter (\<lambda>r. score_key r = k)
               (scored_titles adult_profile
                  (exclude_watched None (get_candidate_titles demo_store adult_profile)))) \<and>
        get_recommendations demo_store 2 2 None = take (nat 2) S) \<and>
   (\<exists>S. sorted_wrt (\<lambda>a b. score_key b \<le> score_key a) S \<and>
        (\<forall>k. filter (\<lambda>r. score_key r = k) S =
             filter (\<lambda>r. score_key r = k)
               (scored_similar movie_a (similar_candidates demo_store movie_a ''s1''))) \<and>
        get_similar_titles demo_store ''s1'' 2 = take (nat 2) S)"
    by blast
  then show ?thesis
    using demo_profile demo_title demo_similar by simp
qed

section \<open>Candidate filters\<close>

lemma exclude_watched_set:
  "t \<in> set (exclude_watched ex cands) \<Longrightarrow> t \<in> set cands \<and> show_id t \<notin> excluded_ids ex"
  by (auto simp add: exclude_watched_def excluded_ids_def split: option.splits if_splits)

lemma get_candidate_titles_set:
  "t \<in> set (get_candidate_titles st p) \<Longrightarrow>
   t \<in> set (titles st) \<and> age_rating t \<in> set (get_age_ratings p) \<and>
   (kids_profile p \<longrightarrow> is_kids_content t)"
  by (auto simp add: get_candidate_titles_def Let_def split: if_splits)

lemma get_recommendations_entries:
  assumes "r \<in> set (get_recommendations st pid limit ex)"
  shows "\<exists>p t. get_profile_by_id st pid = Some p \<and>
               t \<in> set (exclude_watched ex (get_candidate_titles st p)) \<and>
               r = recommendation_entry t (calculate_score t p)"
proof (cases "get_profile_by_id st pid")
  case None
  with assms show ?thesis by (simp add: get_recommendations_def)
next
  case (Some p)
  with assms have "r \<in> set (py_slice_to limit (py_sort_reverse score_key
        (scored_titles p (exclude_watched ex (get_candidate_titles st p)))))"
    by (simp add: get_recommendations_def)
  then have "r \<in> set (py_sort_reverse score_key
        (scored_titles p (exclude_watched ex (get_candidate_titles st p))))"
    by (rule in_set_py_slice_to)
  then have "r \<in> set (scored_titles p (exclude_watched ex (get_candidate_titles st p)))"
    by (simp add: set_py_sort_reverse)
  with Some show ?thesis by (auto simp add: scored_titles_def)
qed

text \<open>
  C3: every record that personalised recommendations return is the record of a title
  whose show id is not among the excluded ids, whose age rating is one of the
  profile's permitted ratings, and which is kids content when the profile is a kids
  profile.
\<close>

theorem C3_results_pass_filters:
  assumes "r \<in> set (get_recommendations st pid limit ex)"
  shows "\<exists>p t. get_profile_by_id st pid = Some p \<and>
               map_of r ''title'' = Some (VTitle t) \<and>
               map_of r ''show_id'' = Some (VStr (show_id t)) \<and>
               map_of r ''age_rating'' = Some (VStr (age_rating t)) \<and>
               show_id t \<notin> excluded_ids ex \<and>
               age_rating t \<in> set (get_age_ratings p) \<and>
               (kids_profile p \<longrightarrow> is_kids_content t)"
proof -
  from get_recommendations_entries [OF assms] obtain p t where
    p: "get_profile_by_id st pid = Some p" and
    t: "t \<in> set (exclude_watched ex (get_candidate_titles st p))" and
    r: "r = recommendation_entry t (calculate_score t p)" by blast
  from t have tc: "t \<in> set (get_candidate_titles st p) \<and> show_id t \<notin> excluded_ids ex"
    by (rule exclude_watched_set)
  from tc [THEN conjunct1]
  have g: "t \<in> set (titles st) \<and> age_rating t \<in> set (get_age_ratings p) \<and>
      (kids_profile p \<longrightarrow> is_kids_content t)"
    by (rule get_candidate_titles_set)
  from p r tc g show ?thesis
    by (intro exI [of _ p] exI [of _ t]) (simp add: recommendation_entry_def)
qed


theorem C3_results_pass_filters_witness:
  "recommendation_entry movie_a (calculate_score movie_a adult_profile)
     \<in> set (get_recommendations demo_store 2 10 (Some [''s2'', ''s3''])) \<and>
   show_id movie_a \<notin> excluded_ids (Some [''s2'', ''s3'']) \<and>
   age_rating movie_a \<in> set (get_age_ratings adult_profile)"
proof -
  let ?r = "recommendation_entry movie_a (calculate_score movie_a adult_profile)"
  have m: "?r \<in> set (get_recommendations demo_store 2 10 (Some [''s2'', ''s3'']))"
    by (simp add: demo_recommendations)
  from C3_results_pass_filters [OF m] obtain p t where
    p: "get_profile_by_id demo_store 2 = Some p" and
    t: "map_of ?r ''title'' = Some (VTitle t)" and
    e: "show_id t \<notin> excluded_ids (Some [''s2'', ''s3''])" and
    a: "age_rating t \<in> set (get_age_ratings p)"
    by blast
  from p have "p = adult_profile" by (simp add: demo_profile)
  moreover from t have "t = movie_a" by (simp add: recommendation_entry_def)
  ultimately show ?thesis using m e a by simp
qed

section \<open>Fields of the returned records\<close>

lemma has_fields_recommendation_entry:
  "has_fields recommendation_fields (recommendation_entry t s)"
  by (simp add: has_fields_def recommendation_fields_def recommendation_entry_def)

lemma has_fields_similar_entry:
  "has_fields similar_fields (similar_entry t s)"
  by (simp add: has_fields_def similar_fields_def similar_entry_def)

lemma get_similar_titles_entries:
  assumes "r \<in> set (get_similar_titles st sid limit)"
  shows "\<exists>t c. r = similar_entry c (calculate_similarity t c)"
proof (cases "get_title_by_show_id st sid")
  case None
  with assms show ?thesis by (simp add: get_similar_titles_def)
next
  case (Some t)
  with assms have "r \<in> set (py_slice_to limit (py_sort_reverse score_key
        (scored_similar t (similar_candidates st t sid))))"
    by (simp add: get_similar_titles_def)
  then have "r \<in> set (py_sort_reverse score_key
        (scored_similar t (similar_candidates st t sid)))"
    by (rule in_set_py_slice_to)
  then have "r \<in> set (scored_similar t (similar_candidates st t sid))"
    by (simp add: set_py_sort_reverse)
  then show ?thesis by (auto simp add: scored_similar_def)
qed

lemma get_recommendations_by_category_subset:
  "set (get_recommendations_by_category st pid cat limit)
     \<subseteq> set (get_recommendations st pid 100 None)"
proof -
  have "set (get_recommendations_by_category st pid cat limit)
      \<subseteq> set (filter (\<lambda>r. map_of r ''category'' = Some (VStr cat))
            (get_recommendations st pid 100 None))"
    unfolding get_recommendations_by_category_def Let_def by (rule set_py_slice_to)
  then show ?thesis by auto
qed

text \<open>
  C9 (as stated): every record of the three operations has the fields show id, title
  name, category, year, type, duration, age rating, language and score. The records
  of similar titles have no \<open>type\<close>, \<open>duration\<close>, \<open>age_rating\<close> or \<open>language\<close>.
\<close>

theorem C9_counterexample:
  "\<not> list_all (has_fields spec_required_fields) (get_similar_titles demo_store ''s1'' 2)"
  by (simp add: demo_similar has_fields_def spec_required_fields_def similar_entry_def)

text \<open>
  C9 (amended): every record of personalised and of category-scoped recommendations
  has the keys \<open>title\<close>, \<open>score\<close>, \<open>show_id\<close>, \<open>title_name\<close>, \<open>category\<close>, \<open>year\<close>,
  \<open>imdb_rating\<close>, \<open>age_rating\<close>, \<open>type\<close>, \<open>language\<close> and \<open>duration\<close>; every record of
  similar titles has the keys \<open>title\<close>, \<open>score\<close>, \<open>show_id\<close>, \<open>title_name\<close>,
  \<open>category\<close>, \<open>year\<close> and \<open>imdb_rating\<close>.
\<close>

theorem C9_record_fields:
  "list_all (has_fields recommendation_fields) (get_recommendations st pid limit ex) \<and>
   list_all (has_fields recommendation_fields)
     (get_recommendations_by_category st pid cat limit') \<and>
   list_all (has_fields similar_fields) (get_similar_titles st sid limit'')"
proof (intro conjI)
  show "list_all (has_fields recommendation_fields) (get_recommendations st pid limit ex)"
    unfolding list_all_iff
  proof
    fix r
    assume "r \<in> set (get_recommendations st pid limit ex)"
    from get_recommendations_entries [OF this] obtain p t
      where "r = recommendation_entry t (calculate_score t p)" by blast
    then show "has_fields recommendation_fields r"
      by (simp only: has_fields_recommendation_entry)
  qed
  show "list_all (has_fields recommendation_fields)
     (get_recommendations_by_category st pid cat limit')"
    unfolding list_all_iff
  proof
    fix r
    assume "r \<in> set (get_recommendations_by_category st pid cat limit')"
    then have "r \<in> set (get_recommendations st pid 100 None)"
      by (rule subsetD [OF get_recommendations_by_category_subset])
    from get_recommendations_entries [OF this] obtain p t
      where "r = recommendation_entry t (calculate_score t p)" by blast
    then show "has_fields recommendation_fields r"
      by (simp only: has_fields_recommendation_entry)
  qed
  show "list_all (has_fields similar_fields) (get_similar_titles st sid limit'')"
    unfolding list_all_iff
  proof
    fix r
    assume "r \<in> set (get_similar_titles st sid limit'')"
    from get_similar_titles_entries [OF this] obtain t c
      where "r = similar_entry c (calculate_similarity t c)" by blast
    then show "has_fields similar_fields r"
      by (simp only: has_fields_similar_entry)
  qed
qed

text \<open>On the sample store both result lists are non-empty.\<close>

theorem C9_record_fields_witness:
  "get_recommendations demo_store 2 10 (Some [''s2'', ''s3'']) \<noteq> [] \<and>
   list_all (has_fields recommendation_fields)
     (get_recommendations demo_store 2 10 (Some [''s2'', ''s3''])) \<and>
   get_similar_titles demo_store ''s1'' 2 \<noteq> [] \<and>
   list_all (has_fields similar_fields) (get_similar_titles demo_store ''s1'' 2)"
proof -
  note f = C9_record_fields [of demo_store 2 10 "Some [''s2'', ''s3'']" "''Drama''" 2 "''s1''" 2]
  have a: "list_all (has_fields recommendation_fields)
     (get_recommendations demo_store 2 10 (Some [''s2'', ''s3'']))"
    by (rule conjunct1 [OF f])
  have b: "list_all (has_fields similar_fields) (get_similar_titles demo_store ''s1'' 2)"
    by (rule conjunct2 [OF conjunct2 [OF f]])
  have c: "get_recommendations demo_store 2 10 (Some [''s2'', ''s3'']) \<noteq> []"
    by (simp add: demo_recommendations)
  have d: "get_similar_titles demo_store ''s1'' 2 \<noteq> []"
    by (simp add: demo_similar)
  from a b c d show ?thesis by blast
qed

end
